theory Spec2Isabelle
  imports Main
begin

section \<open>JavaScript values, truthiness and the short-circuit operators\<close>

text \<open>
  The conference screen is a React component. Its render methods combine props with
  \<^verbatim>\<open>&&\<close>, \<^verbatim>\<open>||\<close> and \<^verbatim>\<open>?:\<close>, whose results are
  JavaScript values: either an element or one of the operands. React renders an element
  child and renders nothing for \<^verbatim>\<open>true\<close>, \<^verbatim>\<open>false\<close>,
  \<^verbatim>\<open>null\<close> and \<^verbatim>\<open>undefined\<close>.
\<close>

datatype handler = This_onClick

datatype tag =
  Fragment | TileView | LargeVideo | TintedView | LoadingIndicator
  | SafeAreaView | DisplayNameLabel | Toolbox | Filmstrip

datatype attr =
  Whiteback bool | OnClickAttr handler | ParticipantId string
  | PointerEvents string | Style string

datatype jsval =
  JUndefined | JNull | JBool bool | JNum int | JStr string | JObj nat
  | JElem tag "attr list" "jsval list"

fun truthy :: "jsval \<Rightarrow> bool" where
  "truthy JUndefined = False"
| "truthy JNull = False"
| "truthy (JBool b) = b"
| "truthy (JNum n) = (n \<noteq> 0)"
| "truthy (JStr s) = (s \<noteq> [])"
| "truthy (JObj _) = True"
| "truthy (JElem _ _ _) = True"

definition js_and :: "jsval \<Rightarrow> jsval \<Rightarrow> jsval" where
  "js_and a b = (if truthy a then b else a)"

definition js_or :: "jsval \<Rightarrow> jsval \<Rightarrow> jsval" where
  "js_or a b = (if truthy a then a else b)"

definition js_not :: "jsval \<Rightarrow> jsval" where
  "js_not a = JBool (\<not> truthy a)"

definition js_cond :: "jsval \<Rightarrow> jsval \<Rightarrow> jsval \<Rightarrow> jsval" where
  "js_cond c a b = (if truthy c then a else b)"

definition Boolean :: "jsval \<Rightarrow> bool" where
  "Boolean v = truthy v"

text \<open>Strict equality \<^verbatim>\<open>===\<close>: primitives by value, objects by identity.\<close>

fun strict_eq :: "jsval \<Rightarrow> jsval \<Rightarrow> bool" where
  "strict_eq JUndefined JUndefined = True"
| "strict_eq JNull JNull = True"
| "strict_eq (JBool a) (JBool b) = (a = b)"
| "strict_eq (JNum a) (JNum b) = (a = b)"
| "strict_eq (JStr a) (JStr b) = (a = b)"
| "strict_eq (JObj a) (JObj b) = (a = b)"
| "strict_eq _ _ = False"

text \<open>The elements React renders from a value, in document order.\<close>

fun elements :: "jsval \<Rightarrow> (tag \<times> attr list) list" where
  "elements (JElem t as cs) = (t, as) # concat (map elements cs)"
| "elements _ = []"

definition tags :: "jsval \<Rightarrow> tag list" where
  "tags v = map fst (elements v)"

section \<open>The redux state and the props\<close>

text \<open>
  The slices of the redux state that \<^verbatim>\<open>_mapStateToProps\<close> reads. The
  selectors it imports from other features (\<^verbatim>\<open>isCalendarEnabled\<close>,
  \<^verbatim>\<open>isFilmstripVisible\<close>, \<^verbatim>\<open>isToolboxVisible\<close>,
  \<^verbatim>\<open>getConferenceName\<close>, \<^verbatim>\<open>getFeatureFlag\<close>, and
  \<^verbatim>\<open>shouldDisplayTileView\<close> behind \<^verbatim>\<open>abstractMapStateToProps\<close>)
  are parameters: the state carries the value each of them yields on it.
\<close>

datatype aspect = ASPECT_RATIO_NARROW | ASPECT_RATIO_WIDE

datatype flag = PIP_ENABLED | FlagName string

record state =
  connecting :: jsval
  connection :: jsval
  conference :: jsval
  joining :: jsval
  membersOnly :: jsval
  leaving :: jsval
  aspectRatio :: aspect
  reducedUI :: bool
  participantId :: string
  isCalendarEnabled :: bool
  isFilmstripVisible :: bool
  isToolboxVisible :: bool
  shouldDisplayTileView :: bool
  getConferenceName :: jsval
  getFeatureFlag :: "flag \<Rightarrow> jsval"

text \<open>
  The props both variants declare and map. The first variant maps two more,
  \<^verbatim>\<open>_aspectRatio\<close> and \<^verbatim>\<open>_toolboxEnabled\<close>.
\<close>

record props =
  p_shouldDisplayTileView :: bool
  p_calendarEnabled :: bool
  p_connecting :: bool
  p_filmstripVisible :: bool
  p_largeVideoParticipantId :: string
  p_pictureInPictureEnabled :: jsval
  p_reducedUI :: bool
  p_toolboxVisible :: bool

record props1 = props +
  p_aspectRatio :: aspect
  p_toolboxEnabled :: bool

text \<open>\<^verbatim>\<open>_mapStateToProps\<close> of \<^verbatim>\<open>native/Conference.js\<close>.\<close>

definition mapStateToProps1 :: "state \<Rightarrow> props1" where
  "mapStateToProps1 s =
     (let connecting' =
            js_or (connecting s)
              (js_and (connection s)
                 (js_and (js_not (membersOnly s))
                    (js_or (joining s)
                       (js_and (js_not (conference s)) (js_not (leaving s))))))
      in \<lparr> p_shouldDisplayTileView = shouldDisplayTileView s,
           p_calendarEnabled = isCalendarEnabled s,
           p_connecting = Boolean connecting',
           p_filmstripVisible = isFilmstripVisible s,
           p_largeVideoParticipantId = participantId s,
           p_pictureInPictureEnabled = getFeatureFlag s PIP_ENABLED,
           p_reducedUI = reducedUI s,
           p_toolboxVisible = isToolboxVisible s,
           p_aspectRatio = aspectRatio s,
           p_toolboxEnabled =
             (if strict_eq (getConferenceName s) (JStr ''toolbox_disabled'')
              then False else True) \<rparr>)"

text \<open>\<^verbatim>\<open>_mapStateToProps\<close> of the second variant: no members-only flag.\<close>

definition mapStateToProps2 :: "state \<Rightarrow> props" where
  "mapStateToProps2 s =
     (let connecting' =
            js_or (connecting s)
              (js_and (connection s)
                 (js_or (joining s)
                    (js_and (js_not (conference s)) (js_not (leaving s)))))
      in \<lparr> p_shouldDisplayTileView = shouldDisplayTileView s,
           p_calendarEnabled = isCalendarEnabled s,
           p_connecting = Boolean connecting',
           p_filmstripVisible = isFilmstripVisible s,
           p_largeVideoParticipantId = participantId s,
           p_pictureInPictureEnabled = getFeatureFlag s PIP_ENABLED,
           p_reducedUI = reducedUI s,
           p_toolboxVisible = isToolboxVisible s \<rparr>)"

section \<open>Rendering\<close>

text \<open>
  \<^verbatim>\<open>_renderContentForReducedUi\<close>, the same in both variants.
\<close>

definition renderContentForReducedUi :: "'a props_scheme \<Rightarrow> jsval" where
  "renderContentForReducedUi p =
     JElem Fragment []
       [ JElem LargeVideo [OnClickAttr This_onClick] [],
         js_and (JBool (p_connecting p))
           (JElem TintedView [] [JElem LoadingIndicator [] []]) ]"

text \<open>
  \<^verbatim>\<open>_renderContent\<close> of \<^verbatim>\<open>native/Conference.js\<close>. Every
  identifier it reads is a prop or an import and no operation in it throws, so it is a
  total function to the tree. The two \<^verbatim>\<open>const\<close>s it computes first are
  never used.
\<close>

definition renderContent1 :: "props1 \<Rightarrow> jsval" where
  "renderContent1 p =
     (let showGradient = p_toolboxVisible p;
          applyGradientStretching =
            (p_filmstripVisible p \<and> p_aspectRatio p = ASPECT_RATIO_NARROW
               \<and> \<not> p_shouldDisplayTileView p)
      in if p_reducedUI p then renderContentForReducedUi p
         else JElem Fragment []
           [ js_cond (JBool (p_toolboxEnabled p))
               (js_cond (JBool (p_shouldDisplayTileView p))
                  (JElem TileView [OnClickAttr This_onClick] [])
                  (JElem LargeVideo [Whiteback False, OnClickAttr This_onClick] []))
               (JElem LargeVideo [Whiteback True, OnClickAttr This_onClick] []),
             js_and (js_and (JBool (p_toolboxEnabled p)) (JBool (p_connecting p)))
               (JElem TintedView [] [JElem LoadingIndicator [] []]),
             JElem SafeAreaView
               [PointerEvents ''box-none'', Style ''toolboxAndFilmstripContainer'']
               [ js_or (JBool (p_shouldDisplayTileView p))
                   (js_and (JBool (p_toolboxEnabled p))
                      (JElem DisplayNameLabel
                         [ParticipantId (p_largeVideoParticipantId p)] [])),
                 js_and (JBool (p_toolboxEnabled p)) (JElem Toolbox [] []),
                 js_cond (JBool (p_shouldDisplayTileView p)) JUndefined
                   (js_and (JBool (p_toolboxEnabled p)) (JElem Filmstrip [] [])) ] ])"

text \<open>
  \<^verbatim>\<open>_renderContent\<close> of the second variant reads the toolbox flag as
  \<^verbatim>\<open>getFeatureFlag(state, "toolbox.enabled")\<close> five times. The method has no
  parameter and declares no \<^verbatim>\<open>state\<close>, and neither does the module, so the
  identifier is resolved in the enclosing global scope: evaluating it throws a
  \<^verbatim>\<open>ReferenceError\<close> unless that scope happens to bind it. The scope is a
  parameter: \<open>None\<close> when \<^verbatim>\<open>state\<close> is unbound, as it is in the module as
  written. \<^verbatim>\<open>isNarrowAspectRatio(this)\<close> is imported; its result is the
  parameter \<open>narrow\<close>.
\<close>

datatype error = ReferenceError string

definition bindE :: "error + 'a \<Rightarrow> ('a \<Rightarrow> error + 'b) \<Rightarrow> error + 'b" where
  "bindE m f = (case m of Inl e \<Rightarrow> Inl e | Inr x \<Rightarrow> f x)"

definition resolve_state :: "state option \<Rightarrow> error + state" where
  "resolve_state scope =
     (case scope of None \<Rightarrow> Inl (ReferenceError ''state'') | Some st \<Rightarrow> Inr st)"

definition toolbox_flag :: "state option \<Rightarrow> error + jsval" where
  "toolbox_flag scope =
     bindE (resolve_state scope)
       (\<lambda>st. Inr (getFeatureFlag st (FlagName ''toolbox.enabled'')))"

definition renderContent2 :: "state option \<Rightarrow> bool \<Rightarrow> props \<Rightarrow> error + jsval" where
  "renderContent2 scope narrow p =
     (let showGradient = p_toolboxVisible p;
          applyGradientStretching =
            (p_filmstripVisible p \<and> narrow \<and> \<not> p_shouldDisplayTileView p)
      in if p_reducedUI p then Inr (renderContentForReducedUi p)
         else
           bindE (toolbox_flag scope) (\<lambda>f1.
           bindE (toolbox_flag scope) (\<lambda>f2.
           bindE (if p_shouldDisplayTileView p then Inr JUndefined
                  else toolbox_flag scope) (\<lambda>f3.
           bindE (toolbox_flag scope) (\<lambda>f4.
           bindE (if p_shouldDisplayTileView p then Inr JUndefined
                  else toolbox_flag scope) (\<lambda>f5.
           Inr (JElem Fragment []
             [ js_cond f1
                 (js_cond (JBool (p_shouldDisplayTileView p))
                    (JElem TileView [OnClickAttr This_onClick] [])
                    (JElem LargeVideo [Whiteback False, OnClickAttr This_onClick] []))
                 (JElem LargeVideo [Whiteback True, OnClickAttr This_onClick] []),
               js_and (js_and f2 (JBool (p_connecting p)))
                 (JElem TintedView [] [JElem LoadingIndicator [] []]),
               JElem SafeAreaView
                 [PointerEvents ''box-none'', Style ''toolboxAndFilmstripContainer'']
                 [ js_or (JBool (p_shouldDisplayTileView p))
                     (js_and f3
                        (JElem DisplayNameLabel
                           [ParticipantId (p_largeVideoParticipantId p)] [])),
                   js_and f4 (JElem Toolbox [] []),
                   js_cond (JBool (p_shouldDisplayTileView p)) JUndefined
                     (js_and f5 (JElem Filmstrip [] [])) ] ])))))))"

text \<open>
  What a render puts on the screen: the elements of the tree it returns, and nothing when
  it throws.
\<close>

definition rendered :: "error + jsval \<Rightarrow> (tag \<times> attr list) list" where
  "rendered r = (case r of Inl e \<Rightarrow> [] | Inr t \<Rightarrow> elements t)"

section \<open>Event handlers\<close>

text \<open>
  The actions the component dispatches: \<^verbatim>\<open>appNavigate(uri)\<close> (the destination
  is \<open>None\<close> for \<^verbatim>\<open>undefined\<close>) and
  \<^verbatim>\<open>setToolboxVisible(visible)\<close>. A handler returns the list of actions it
  passes to \<^verbatim>\<open>this.props.dispatch\<close>, in order.
\<close>

datatype action = AppNavigate "string option" | SetToolboxVisible bool

text \<open>\<^verbatim>\<open>_setToolboxVisible\<close> and \<^verbatim>\<open>_onClick\<close>.\<close>

definition setToolboxVisible_m :: "bool \<Rightarrow> action list" where
  "setToolboxVisible_m visible = [SetToolboxVisible visible]"

definition onClick :: "'a props_scheme \<Rightarrow> action list" where
  "onClick p = setToolboxVisible_m (\<not> p_toolboxVisible p)"

text \<open>
  How a promise ends. \<^verbatim>\<open>p.catch(h)\<close> runs \<open>h\<close> when \<open>p\<close> rejects and
  returns a promise that fulfils with what \<open>h\<close> returns; otherwise \<open>h\<close> does not run
  and the returned promise ends as \<open>p\<close> does.
\<close>

datatype settlement = Fulfilled | Rejected | Pending

definition promise_catch :: "settlement \<Rightarrow> action list \<Rightarrow> action list \<times> settlement" where
  "promise_catch p h =
     (case p of
        Rejected \<Rightarrow> (h, Fulfilled)
      | Fulfilled \<Rightarrow> ([], Fulfilled)
      | Pending \<Rightarrow> ([], Pending))"

text \<open>
  \<^verbatim>\<open>_onHardwareBackPress\<close>. The native
  \<^verbatim>\<open>PictureInPicture.enterPictureInPicture()\<close> is a parameter: \<open>pip\<close> is how
  the promise it returns ends. The result records the value returned to the registry,
  the number of entry requests made, the actions dispatched once the promise has settled,
  and how the promise left by \<^verbatim>\<open>p.catch\<close> ends.
\<close>

record back_press =
  returned :: bool
  pip_requests :: nat
  dispatched :: "action list"
  catch_promise :: settlement

definition onHardwareBackPress :: "'a props_scheme \<Rightarrow> settlement \<Rightarrow> back_press" where
  "onHardwareBackPress p pip =
     (let (n, pr) = (if truthy (p_pictureInPictureEnabled p) then (1, pip)
                     else (0, Rejected));
          (acts, q) = promise_catch pr [AppNavigate None]
      in \<lparr> returned = True, pip_requests = n, dispatched = acts, catch_promise = q \<rparr>)"

section \<open>Lifecycle and the back-button registry\<close>

text \<open>
  A listener is a function object. The constructor binds
  \<^verbatim>\<open>_onHardwareBackPress\<close> once per instance, so each instance (numbered here)
  has one bound handler of its own; any other listener is \<open>Foreign\<close>.
\<close>

datatype listener = Bound_onHardwareBackPress nat | Foreign nat

datatype registry_call = AddListener listener | RemoveListener listener

text \<open>
  \<^verbatim>\<open>componentDidMount\<close> and \<^verbatim>\<open>componentWillUnmount\<close>: the calls each
  makes on \<^verbatim>\<open>BackButtonRegistry\<close>.
\<close>

definition componentDidMount :: "nat \<Rightarrow> registry_call list" where
  "componentDidMount inst = [AddListener (Bound_onHardwareBackPress inst)]"

definition componentWillUnmount :: "nat \<Rightarrow> registry_call list" where
  "componentWillUnmount inst = [RemoveListener (Bound_onHardwareBackPress inst)]"

text \<open>
  Modelled from the spec: \<^verbatim>\<open>BackButtonRegistry\<close> of
  \<^verbatim>\<open>mobile/back-button\<close> is imported and not part of these sources. The
  specification describes it as a platform back-button registry with
  \<^verbatim>\<open>addListener\<close>/\<^verbatim>\<open>removeListener\<close>, on which registering and
  deregistering are symmetric and idempotent: it is the set of registered listeners.
\<close>

definition addListener :: "listener \<Rightarrow> listener set \<Rightarrow> listener set" where
  "addListener l r = insert l r"

definition removeListener :: "listener \<Rightarrow> listener set \<Rightarrow> listener set" where
  "removeListener l r = r - {l}"

fun registry_step :: "listener set \<Rightarrow> registry_call \<Rightarrow> listener set" where
  "registry_step r (AddListener l) = addListener l r"
| "registry_step r (RemoveListener l) = removeListener l r"

definition run_calls :: "registry_call list \<Rightarrow> listener set \<Rightarrow> listener set" where
  "run_calls cs r = foldl registry_step r cs"

section \<open>Concrete inputs\<close>

text \<open>
  A state waiting in a lobby: the transport is connected, no conference has been joined
  and the members-only flag is set.
\<close>

definition lobby_state :: state where
  "lobby_state =
     \<lparr> connecting = JUndefined, connection = JObj 1, conference = JUndefined,
       joining = JUndefined, membersOnly = JBool True, leaving = JUndefined,
       aspectRatio = ASPECT_RATIO_NARROW, reducedUI = False, participantId = ''abc'',
       isCalendarEnabled = False, isFilmstripVisible = True, isToolboxVisible = False,
       shouldDisplayTileView = True, getConferenceName = JStr ''Room1'',
       getFeatureFlag = (\<lambda>f. JBool True) \<rparr>"

text \<open>Props of the first variant in tile view, with the toolbox enabled.\<close>

definition tile_props :: props1 where
  "tile_props =
     \<lparr> p_shouldDisplayTileView = True, p_calendarEnabled = False, p_connecting = False,
       p_filmstripVisible = True, p_largeVideoParticipantId = ''abc'',
       p_pictureInPictureEnabled = JBool True, p_reducedUI = False,
       p_toolboxVisible = True, p_aspectRatio = ASPECT_RATIO_NARROW,
       p_toolboxEnabled = True \<rparr>"

text \<open>The same for the second variant, which maps no toolbox prop.\<close>

definition tile_props2 :: props where
  "tile_props2 =
     \<lparr> p_shouldDisplayTileView = True, p_calendarEnabled = False, p_connecting = False,
       p_filmstripVisible = True, p_largeVideoParticipantId = ''abc'',
       p_pictureInPictureEnabled = JBool True, p_reducedUI = False,
       p_toolboxVisible = True \<rparr>"

text \<open>Both variants with tile view off and the large video on stage.\<close>

definition stage_props :: props1 where
  "stage_props =
     \<lparr> p_shouldDisplayTileView = False, p_calendarEnabled = False, p_connecting = False,
       p_filmstripVisible = True, p_largeVideoParticipantId = ''abc'',
       p_pictureInPictureEnabled = JBool True, p_reducedUI = False,
       p_toolboxVisible = True, p_aspectRatio = ASPECT_RATIO_NARROW,
       p_toolboxEnabled = True \<rparr>"

definition stage_props2 :: props where
  "stage_props2 =
     \<lparr> p_shouldDisplayTileView = False, p_calendarEnabled = False, p_connecting = False,
       p_filmstripVisible = True, p_largeVideoParticipantId = ''abc'',
       p_pictureInPictureEnabled = JBool True, p_reducedUI = False,
       p_toolboxVisible = True \<rparr>"

text \<open>
  Tile view while connecting, in a conference named \<^verbatim>\<open>toolbox_disabled\<close> and
  with picture-in-picture off.
\<close>

definition disabled_tile_props :: props1 where
  "disabled_tile_props =
     \<lparr> p_shouldDisplayTileView = True, p_calendarEnabled = False, p_connecting = True,
       p_filmstripVisible = True, p_largeVideoParticipantId = ''abc'',
       p_pictureInPictureEnabled = JBool False, p_reducedUI = False,
       p_toolboxVisible = True, p_aspectRatio = ASPECT_RATIO_NARROW,
       p_toolboxEnabled = False \<rparr>"

text \<open>Reduced UI: connecting in the first variant, connected in the second.\<close>

definition reduced_props :: props1 where
  "reduced_props =
     \<lparr> p_shouldDisplayTileView = True, p_calendarEnabled = False, p_connecting = True,
       p_filmstripVisible = True, p_largeVideoParticipantId = ''abc'',
       p_pictureInPictureEnabled = JBool False, p_reducedUI = True,
       p_toolboxVisible = True, p_aspectRatio = ASPECT_RATIO_WIDE,
       p_toolboxEnabled = True \<rparr>"

definition reduced_props2 :: props where
  "reduced_props2 =
     \<lparr> p_shouldDisplayTileView = False, p_calendarEnabled = False, p_connecting = False,
       p_filmstripVisible = True, p_largeVideoParticipantId = ''abc'',
       p_pictureInPictureEnabled = JBool False, p_reducedUI = True,
       p_toolboxVisible = True \<rparr>"

section \<open>The derived connecting flag\<close>

lemma truthy_ops [simp]:
  "truthy (js_not a) = (\<not> truthy a)"
  "truthy (js_and a b) = (truthy a \<and> truthy b)"
  "truthy (js_or a b) = (truthy a \<or> truthy b)"
  by (simp_all add: js_not_def js_and_def js_or_def)

text \<open>
  C1. In every state the \<^verbatim>\<open>_connecting\<close> prop is: the transport is connecting,
  or the transport is connected and (the join is in progress, or there is no conference
  and no leave in progress). The variant that reads the members-only flag conjoins its
  negation with the transport-connected disjunct, so a set members-only flag suppresses
  the indicator unless the transport is connecting.
\<close>

theorem connecting_formula:
  "p_connecting (mapStateToProps2 s) =
     (truthy (connecting s) \<or> (truthy (connection s) \<and>
        (truthy (joining s) \<or> (\<not> truthy (conference s) \<and> \<not> truthy (leaving s)))))
   \<and> p_connecting (mapStateToProps1 s) =
     (truthy (connecting s) \<or> (truthy (connection s) \<and> \<not> truthy (membersOnly s) \<and>
        (truthy (joining s) \<or> (\<not> truthy (conference s) \<and> \<not> truthy (leaving s)))))
   \<and> (truthy (membersOnly s) \<and> \<not> truthy (connecting s)
        \<longrightarrow> \<not> p_connecting (mapStateToProps1 s))"
  by (simp add: mapStateToProps1_def mapStateToProps2_def Boolean_def)

theorem connecting_formula_witness:
  "truthy (membersOnly lobby_state) \<and> \<not> truthy (connecting lobby_state)
   \<and> \<not> p_connecting (mapStateToProps1 lobby_state)
   \<and> p_connecting (mapStateToProps2 lobby_state)"
  using connecting_formula [of lobby_state] by (simp add: lobby_state_def)

section \<open>The toolbox-enabled prop\<close>

lemma strict_eq_JStr: "strict_eq v (JStr c) = (v = JStr c)"
  by (cases v) auto

text \<open>
  C10. In \<^verbatim>\<open>native/Conference.js\<close> the \<^verbatim>\<open>_toolboxEnabled\<close> prop
  is false exactly when the conference name is the string
  \<^verbatim>\<open>toolbox_disabled\<close> and true in every other state; states with the same
  conference name get the same value, whatever their feature flags.
\<close>

theorem toolbox_enabled_from_name:
  "p_toolboxEnabled (mapStateToProps1 s) = (getConferenceName s \<noteq> JStr ''toolbox_disabled'')
   \<and> (getConferenceName s = getConferenceName s' \<longrightarrow>
        p_toolboxEnabled (mapStateToProps1 s) = p_toolboxEnabled (mapStateToProps1 s'))"
  by (simp add: mapStateToProps1_def strict_eq_JStr)

text \<open>
  Changing every feature flag of the lobby state leaves the prop true; renaming its
  conference to \<^verbatim>\<open>toolbox_disabled\<close> makes it false.
\<close>

theorem toolbox_enabled_from_name_witness:
  "getConferenceName lobby_state
     = getConferenceName (lobby_state \<lparr> getFeatureFlag := (\<lambda>f. JBool False) \<rparr>)
   \<and> p_toolboxEnabled (mapStateToProps1 lobby_state)
   \<and> p_toolboxEnabled
        (mapStateToProps1 (lobby_state \<lparr> getFeatureFlag := (\<lambda>f. JBool False) \<rparr>))
   \<and> \<not> p_toolboxEnabled
        (mapStateToProps1 (lobby_state \<lparr> getConferenceName := JStr ''toolbox_disabled'' \<rparr>))"
proof -
  have a: "getConferenceName lobby_state
      = getConferenceName (lobby_state \<lparr> getFeatureFlag := (\<lambda>f. JBool False) \<rparr>)"
    by simp
  have b: "getConferenceName lobby_state \<noteq> JStr ''toolbox_disabled''"
    by (simp add: lobby_state_def)
  have c: "getConferenceName (lobby_state \<lparr> getConferenceName := JStr ''toolbox_disabled'' \<rparr>)
      = JStr ''toolbox_disabled''"
    by simp
  show ?thesis
    using a b c
      toolbox_enabled_from_name
        [of lobby_state "lobby_state \<lparr> getFeatureFlag := (\<lambda>f. JBool False) \<rparr>"]
      toolbox_enabled_from_name
        [of "lobby_state \<lparr> getConferenceName := JStr ''toolbox_disabled'' \<rparr>" lobby_state]
    by blast
qed

section \<open>What is rendered\<close>

lemmas js_defs = js_and_def js_or_def js_cond_def js_not_def

lemma falsy_elements: "\<not> truthy v \<Longrightarrow> elements v = []"
  by (cases v) simp_all

lemma elements_js:
  "elements (js_and a b) = (if truthy a then elements b else [])"
  "elements (js_or a b) = (if truthy a then elements a else elements b)"
  "elements (js_cond c a b) = (if truthy c then elements a else elements b)"
  by (simp_all add: js_and_def js_or_def js_cond_def falsy_elements)

text \<open>
  Outside reduced UI, when the second variant renders the label and the filmstrip: never
  with \<^verbatim>\<open>state\<close> unbound, where the render throws.
\<close>

lemma rendered2_label:
  "\<not> p_reducedUI q \<Longrightarrow>
   ((DisplayNameLabel, as) \<in> set (rendered (renderContent2 scope narrow q)))
     = (as = [ParticipantId (p_largeVideoParticipantId q)]
        \<and> \<not> p_shouldDisplayTileView q
        \<and> (case scope of None \<Rightarrow> False
            | Some st \<Rightarrow> truthy (getFeatureFlag st (FlagName ''toolbox.enabled''))))"
  by (cases scope)
     (auto simp add: rendered_def renderContent2_def toolbox_flag_def resolve_state_def
        bindE_def elements_js split: if_splits)

lemma rendered2_filmstrip:
  "\<not> p_reducedUI q \<Longrightarrow>
   ((Filmstrip, as) \<in> set (rendered (renderContent2 scope narrow q)))
     = (as = [] \<and> \<not> p_shouldDisplayTileView q
        \<and> (case scope of None \<Rightarrow> False
            | Some st \<Rightarrow> truthy (getFeatureFlag st (FlagName ''toolbox.enabled''))))"
  by (cases scope)
     (auto simp add: rendered_def renderContent2_def toolbox_flag_def resolve_state_def
        bindE_def elements_js split: if_splits)

text \<open>
  C2, as the code has it. With tile view active and reduced UI off, neither variant
  renders a Filmstrip or a DisplayNameLabel: in
  \<^verbatim>\<open>_shouldDisplayTileView || _toolboxEnabled && <DisplayNameLabel/>\<close> the
  left operand is \<^verbatim>\<open>true\<close> and is the value of the expression, which React
  renders as nothing. Outside reduced UI a DisplayNameLabel is rendered exactly when tile
  view is off and the toolbox is enabled, and it is the label of the large-video
  participant. In the first variant the toolbox is enabled by the
  \<^verbatim>\<open>_toolboxEnabled\<close> prop; in the second by a truthy
  \<^verbatim>\<open>toolbox.enabled\<close> flag of the \<^verbatim>\<open>state\<close> the method reads,
  and where it can read none it renders nothing at all.
\<close>

theorem tile_view_hides_filmstrip_and_label:
  "(p_shouldDisplayTileView p \<and> \<not> p_reducedUI p \<longrightarrow>
      Filmstrip \<notin> set (tags (renderContent1 p))
      \<and> DisplayNameLabel \<notin> set (tags (renderContent1 p)))
   \<and> (\<not> p_reducedUI p \<longrightarrow>
      ((DisplayNameLabel, as) \<in> set (elements (renderContent1 p)))
        = (as = [ParticipantId (p_largeVideoParticipantId p)]
           \<and> \<not> p_shouldDisplayTileView p \<and> p_toolboxEnabled p))
   \<and> (p_shouldDisplayTileView q \<and> \<not> p_reducedUI q \<longrightarrow>
      Filmstrip \<notin> fst ` set (rendered (renderContent2 scope narrow q))
      \<and> DisplayNameLabel \<notin> fst ` set (rendered (renderContent2 scope narrow q)))
   \<and> (\<not> p_reducedUI q \<longrightarrow>
      ((DisplayNameLabel, as') \<in> set (rendered (renderContent2 scope narrow q)))
        = (as' = [ParticipantId (p_largeVideoParticipantId q)]
           \<and> \<not> p_shouldDisplayTileView q
           \<and> (case scope of None \<Rightarrow> False
               | Some st \<Rightarrow> truthy (getFeatureFlag st (FlagName ''toolbox.enabled'')))))"
proof -
  have v1: "\<not> p_reducedUI p \<Longrightarrow>
      ((DisplayNameLabel, as) \<in> set (elements (renderContent1 p)))
        = (as = [ParticipantId (p_largeVideoParticipantId p)]
           \<and> \<not> p_shouldDisplayTileView p \<and> p_toolboxEnabled p)"
    by (auto simp add: renderContent1_def js_defs)
  have v1t: "p_shouldDisplayTileView p \<Longrightarrow> \<not> p_reducedUI p \<Longrightarrow>
      Filmstrip \<notin> set (tags (renderContent1 p))
      \<and> DisplayNameLabel \<notin> set (tags (renderContent1 p))"
    by (simp add: renderContent1_def tags_def js_defs)
  have v2t: "Filmstrip \<notin> fst ` set (rendered (renderContent2 scope narrow q))
      \<and> DisplayNameLabel \<notin> fst ` set (rendered (renderContent2 scope narrow q))"
    if "p_shouldDisplayTileView q" "\<not> p_reducedUI q"
    using that rendered2_label [of q _ scope narrow] rendered2_filmstrip [of q _ scope narrow]
    by force
  show ?thesis
    using v1 v1t v2t rendered2_label [of q as' scope narrow] by blast
qed

text \<open>
  The claim as stated, that the label is always rendered in tile view, fails on the
  first variant with the toolbox enabled.
\<close>

theorem tile_view_label_counterexample:
  "p_shouldDisplayTileView tile_props \<and> \<not> p_reducedUI tile_props
   \<and> DisplayNameLabel \<notin> set (tags (renderContent1 tile_props))"
  by (simp add: tile_props_def renderContent1_def tags_def js_defs)

text \<open>
  Tile view and the large video on stage, in both variants; the second with
  \<^verbatim>\<open>state\<close> unbound, as the module has it, and bound to the lobby state, whose
  flags are all on.
\<close>

theorem tile_view_hides_filmstrip_and_label_witness:
  "p_shouldDisplayTileView tile_props \<and> \<not> p_reducedUI tile_props
   \<and> Filmstrip \<notin> set (tags (renderContent1 tile_props))
   \<and> DisplayNameLabel \<notin> set (tags (renderContent1 tile_props))
   \<and> \<not> p_reducedUI stage_props
   \<and> (DisplayNameLabel, [ParticipantId ''abc'']) \<in> set (elements (renderContent1 stage_props))
   \<and> p_shouldDisplayTileView tile_props2 \<and> \<not> p_reducedUI tile_props2
   \<and> Filmstrip \<notin> fst ` set (rendered (renderContent2 None True tile_props2))
   \<and> DisplayNameLabel \<notin> fst ` set (rendered (renderContent2 None True tile_props2))
   \<and> \<not> p_reducedUI stage_props2
   \<and> (DisplayNameLabel, [ParticipantId ''abc''])
        \<notin> set (rendered (renderContent2 None True stage_props2))
   \<and> (DisplayNameLabel, [ParticipantId ''abc''])
        \<in> set (rendered (renderContent2 (Some lobby_state) True stage_props2))
   \<and> Filmstrip \<notin> fst ` set (rendered (renderContent2 (Some lobby_state) True tile_props2))
   \<and> DisplayNameLabel
        \<notin> fst ` set (rendered (renderContent2 (Some lobby_state) True tile_props2))"
proof -
  have a: "p_shouldDisplayTileView tile_props \<and> \<not> p_reducedUI tile_props"
    by (simp add: tile_props_def)
  have b: "p_shouldDisplayTileView tile_props2 \<and> \<not> p_reducedUI tile_props2"
    by (simp add: tile_props2_def)
  have c: "\<not> p_reducedUI stage_props \<and> \<not> p_shouldDisplayTileView stage_props
      \<and> p_toolboxEnabled stage_props \<and> p_largeVideoParticipantId stage_props = ''abc''"
    by (simp add: stage_props_def)
  have d: "\<not> p_reducedUI stage_props2 \<and> \<not> p_shouldDisplayTileView stage_props2
      \<and> p_largeVideoParticipantId stage_props2 = ''abc''"
    by (simp add: stage_props2_def)
  have e: "truthy (getFeatureFlag lobby_state (FlagName ''toolbox.enabled''))"
    by (simp add: lobby_state_def)
  show ?thesis
    using a b c d e
      tile_view_hides_filmstrip_and_label
        [of tile_props "[ParticipantId ''abc'']" tile_props2 None True "[ParticipantId ''abc'']"]
      tile_view_hides_filmstrip_and_label
        [of stage_props "[ParticipantId ''abc'']" stage_props2 None True
           "[ParticipantId ''abc'']"]
      tile_view_hides_filmstrip_and_label
        [of stage_props "[ParticipantId ''abc'']" stage_props2 "Some lobby_state" True
           "[ParticipantId ''abc'']"]
      tile_view_hides_filmstrip_and_label
        [of tile_props "[ParticipantId ''abc'']" tile_props2 "Some lobby_state" True
           "[ParticipantId ''abc'']"]
    by simp
qed

text \<open>
  C3. With the reduced-UI flag set, both variants render exactly the large video and,
  when connecting, the tinted view holding the loading indicator; the tree has no Toolbox,
  no Filmstrip and no DisplayNameLabel. The second variant returns before it reads
  \<^verbatim>\<open>state\<close>, so this holds in every scope.
\<close>

theorem reduced_ui_tree:
  "(p_reducedUI p \<longrightarrow>
      elements (renderContent1 p) =
        [(Fragment, []), (LargeVideo, [OnClickAttr This_onClick])]
        @ (if p_connecting p then [(TintedView, []), (LoadingIndicator, [])] else [])
      \<and> Toolbox \<notin> set (tags (renderContent1 p))
      \<and> Filmstrip \<notin> set (tags (renderContent1 p))
      \<and> DisplayNameLabel \<notin> set (tags (renderContent1 p)))
   \<and> (p_reducedUI q \<longrightarrow>
      renderContent2 scope narrow q = Inr (renderContentForReducedUi q)
      \<and> elements (renderContentForReducedUi q) =
        [(Fragment, []), (LargeVideo, [OnClickAttr This_onClick])]
        @ (if p_connecting q then [(TintedView, []), (LoadingIndicator, [])] else [])
      \<and> Toolbox \<notin> set (tags (renderContentForReducedUi q))
      \<and> Filmstrip \<notin> set (tags (renderContentForReducedUi q))
      \<and> DisplayNameLabel \<notin> set (tags (renderContentForReducedUi q)))"
  by (simp add: renderContent1_def renderContent2_def renderContentForReducedUi_def
        tags_def js_and_def)

text \<open>
  Reduced UI while connecting (first variant) and while connected, with
  \<^verbatim>\<open>state\<close> unbound (second variant).
\<close>

theorem reduced_ui_tree_witness:
  "p_reducedUI reduced_props
   \<and> elements (renderContent1 reduced_props) =
       [(Fragment, []), (LargeVideo, [OnClickAttr This_onClick]),
        (TintedView, []), (LoadingIndicator, [])]
   \<and> p_reducedUI reduced_props2
   \<and> renderContent2 None False reduced_props2
       = Inr (renderContentForReducedUi reduced_props2)
   \<and> elements (renderContentForReducedUi reduced_props2) =
       [(Fragment, []), (LargeVideo, [OnClickAttr This_onClick])]"
proof -
  have a: "p_reducedUI reduced_props \<and> p_connecting reduced_props"
    by (simp add: reduced_props_def)
  have b: "p_reducedUI reduced_props2 \<and> \<not> p_connecting reduced_props2"
    by (simp add: reduced_props2_def)
  show ?thesis
    using a b reduced_ui_tree [of reduced_props reduced_props2 None False] by simp
qed

lemma renderContent2_unbound:
  "\<not> p_reducedUI q \<Longrightarrow> renderContent2 None narrow q = Inl (ReferenceError ''state'')"
  by (simp add: renderContent2_def toolbox_flag_def resolve_state_def bindE_def)

text \<open>
  C4 fails on the second variant. Outside reduced UI its \<^verbatim>\<open>_renderContent\<close>
  evaluates the undeclared identifier \<^verbatim>\<open>state\<close> first and throws a
  \<^verbatim>\<open>ReferenceError\<close>: no tree is rendered.
\<close>

theorem render_variant2_reference_error:
  "renderContent2 None True tile_props2 = Inl (ReferenceError ''state'')"
  by (simp add: renderContent2_def toolbox_flag_def resolve_state_def bindE_def
        tile_props2_def)

text \<open>
  C9, as the code has it. Outside reduced UI the first variant renders the tinted overlay
  exactly when connecting with the toolbox enabled. The video surface is the tiled grid
  exactly when tile view is active and the toolbox is enabled; otherwise it is the large
  video, white-backed exactly when the toolbox is disabled.
\<close>

theorem surface_and_overlay:
  "\<not> p_reducedUI p \<Longrightarrow>
   (TintedView \<in> set (tags (renderContent1 p))) = (p_connecting p \<and> p_toolboxEnabled p)
   \<and> (TileView \<in> set (tags (renderContent1 p)))
       = (p_shouldDisplayTileView p \<and> p_toolboxEnabled p)
   \<and> (LargeVideo \<in> set (tags (renderContent1 p)))
       = (\<not> (p_shouldDisplayTileView p \<and> p_toolboxEnabled p))
   \<and> ((LargeVideo, [Whiteback w, OnClickAttr This_onClick])
         \<in> set (elements (renderContent1 p)))
       = (\<not> (p_shouldDisplayTileView p \<and> p_toolboxEnabled p)
          \<and> w = (\<not> p_toolboxEnabled p))"
  by (auto simp add: renderContent1_def tags_def js_defs)

text \<open>
  Tile view with the toolbox disabled: a white-backed large video, no grid and, though
  connecting, no overlay.
\<close>

theorem surface_and_overlay_witness:
  "\<not> p_reducedUI disabled_tile_props
   \<and> TintedView \<notin> set (tags (renderContent1 disabled_tile_props))
   \<and> TileView \<notin> set (tags (renderContent1 disabled_tile_props))
   \<and> (LargeVideo, [Whiteback True, OnClickAttr This_onClick])
        \<in> set (elements (renderContent1 disabled_tile_props))"
proof -
  have a: "\<not> p_reducedUI disabled_tile_props \<and> p_shouldDisplayTileView disabled_tile_props
      \<and> \<not> p_toolboxEnabled disabled_tile_props"
    by (simp add: disabled_tile_props_def)
  show ?thesis
    using a surface_and_overlay [of disabled_tile_props True] by simp
qed

text \<open>
  The claim as stated, that tile view always gives the tiled grid, fails when the toolbox
  is disabled.
\<close>

theorem tiled_grid_counterexample:
  "p_shouldDisplayTileView disabled_tile_props \<and> \<not> p_reducedUI disabled_tile_props
   \<and> TileView \<notin> set (tags (renderContent1 disabled_tile_props))
   \<and> (LargeVideo, [Whiteback True, OnClickAttr This_onClick])
        \<in> set (elements (renderContent1 disabled_tile_props))"
  by (simp add: disabled_tile_props_def renderContent1_def tags_def js_defs)

section \<open>Taps and the hardware back button\<close>

text \<open>
  C8. Whatever the current toolbox visibility, a tap dispatches one action, the
  set-toolbox-visibility action carrying the negated value, and nothing else.
\<close>

theorem click_toggles_toolbox:
  "onClick p = [SetToolboxVisible (\<not> p_toolboxVisible p)]"
  by (simp add: onClick_def setToolboxVisible_m_def)

text \<open>
  C5. The back-button callback returns \<^verbatim>\<open>true\<close> for every value of the
  picture-in-picture prop and however the entry request ends.
\<close>

theorem back_press_handled:
  "returned (onHardwareBackPress p pip) = True"
  by (simp add: onHardwareBackPress_def split: prod.splits)

text \<open>
  C6. If picture-in-picture is disabled or the entry request is rejected, the callback
  dispatches exactly one action, \<^verbatim>\<open>appNavigate(undefined)\<close>; if it is enabled
  and the request is fulfilled, nothing is dispatched. At most one entry request is made
  and the promise left by \<^verbatim>\<open>catch\<close> never rejects.
\<close>

theorem back_press_navigation:
  "(\<not> truthy (p_pictureInPictureEnabled p) \<or> pip = Rejected \<longrightarrow>
      dispatched (onHardwareBackPress p pip) = [AppNavigate None])
   \<and> (truthy (p_pictureInPictureEnabled p) \<and> pip = Fulfilled \<longrightarrow>
      dispatched (onHardwareBackPress p pip) = [])
   \<and> pip_requests (onHardwareBackPress p pip) \<le> 1
   \<and> catch_promise (onHardwareBackPress p pip) \<noteq> Rejected"
  by (cases pip) (simp_all add: onHardwareBackPress_def promise_catch_def)

text \<open>
  Picture-in-picture off, then on with the request rejected and fulfilled.
\<close>

theorem back_press_navigation_witness:
  "\<not> truthy (p_pictureInPictureEnabled disabled_tile_props)
   \<and> dispatched (onHardwareBackPress disabled_tile_props Pending) = [AppNavigate None]
   \<and> truthy (p_pictureInPictureEnabled tile_props)
   \<and> dispatched (onHardwareBackPress tile_props Rejected) = [AppNavigate None]
   \<and> dispatched (onHardwareBackPress tile_props Fulfilled) = []"
proof -
  have a: "\<not> truthy (p_pictureInPictureEnabled disabled_tile_props)"
    by (simp add: disabled_tile_props_def)
  have b: "truthy (p_pictureInPictureEnabled tile_props)"
    by (simp add: tile_props_def)
  show ?thesis
    using a b back_press_navigation [of disabled_tile_props Pending]
      back_press_navigation [of tile_props Rejected]
      back_press_navigation [of tile_props Fulfilled]
    by simp
qed

section \<open>Mounting and unmounting\<close>

text \<open>
  C7. Mounting makes one call, registering the instance's bound handler, and so adds
  that listener and no other; mounting again changes nothing. Unmounting makes one call,
  unconditionally, removing the same listener. After a mount and an unmount the registry
  holds no listener of the instance, and is the registry it was if the handler was not in
  it before.
\<close>

theorem mount_unmount_listener:
  "componentDidMount i = [AddListener (Bound_onHardwareBackPress i)]
   \<and> componentWillUnmount i = [RemoveListener (Bound_onHardwareBackPress i)]
   \<and> run_calls (componentDidMount i) r = insert (Bound_onHardwareBackPress i) r
   \<and> run_calls (componentDidMount i) (run_calls (componentDidMount i) r)
       = run_calls (componentDidMount i) r
   \<and> Bound_onHardwareBackPress i \<notin> run_calls (componentWillUnmount i) r
   \<and> Bound_onHardwareBackPress i
       \<notin> run_calls (componentDidMount i @ componentWillUnmount i) r
   \<and> (Bound_onHardwareBackPress i \<notin> r \<longrightarrow>
        run_calls (componentDidMount i @ componentWillUnmount i) r = r)"
  by (auto simp add: componentDidMount_def componentWillUnmount_def run_calls_def
        addListener_def removeListener_def)

text \<open>
  Instance 3 on a registry holding a foreign listener and the handler of instance 2.
\<close>

theorem mount_unmount_listener_witness:
  "Bound_onHardwareBackPress 3 \<notin> {Foreign 1, Bound_onHardwareBackPress 2}
   \<and> run_calls (componentDidMount 3 @ componentWillUnmount 3)
        {Foreign 1, Bound_onHardwareBackPress 2}
       = {Foreign 1, Bound_onHardwareBackPress 2}"
proof -
  have h: "Bound_onHardwareBackPress 3 \<notin> {Foreign 1, Bound_onHardwareBackPress 2}"
    by simp
  show ?thesis
    using h mount_unmount_listener [of 3 "{Foreign 1, Bound_onHardwareBackPress 2}"]
    by blast
qed

end
